theory Spec2Isabelle
  imports Complex_Main
begin

section \<open>Numbers and vectors\<close>

text \<open>
  The scene code computes with JavaScript numbers. They are modelled as mathematical
  reals: \<open>Math.sin\<close>, \<open>Math.cos\<close> and \<open>Math.exp\<close> are the real functions and
  \<open>Math.PI\<close> is \<open>pi\<close>. Rounding of IEEE doubles is not part of the model, so every
  statement below is about the exact arithmetic the code writes down.

  \<open>THREE.Vector3\<close> is a triple of numbers. The methods the sources call on it come
  from the three.js library; each is written out as the library computes it,
  component by component, and returns the updated vector where the library mutates
  the receiver.
\<close>

datatype Vector3 = Vector3 (vx: real) (vy: real) (vz: real)

text \<open>\<open>a.add(b)\<close>: component-wise sum.\<close>

definition add :: "Vector3 \<Rightarrow> Vector3 \<Rightarrow> Vector3" where
  "add a b = Vector3 (vx a + vx b) (vy a + vy b) (vz a + vz b)"

text \<open>
  \<open>cur.lerp(v, alpha)\<close>: three.js performs \<open>this.x += (v.x - this.x) * alpha\<close>
  and the same for \<open>y\<close> and \<open>z\<close>.
\<close>

definition lerp :: "Vector3 \<Rightarrow> Vector3 \<Rightarrow> real \<Rightarrow> Vector3" where
  "lerp cur v alpha =
     Vector3 (vx cur + (vx v - vx cur) * alpha)
             (vy cur + (vy v - vy cur) * alpha)
             (vz cur + (vz v - vz cur) * alpha)"

section \<open>The camera controller with smoothed state\<close>

text \<open>
  The controller keeps four refs (\<open>smoothedPlanet\<close>, \<open>smoothedCamera\<close>,
  \<open>lastDir\<close>, \<open>isActive\<close>) and writes the camera. Of the camera the model keeps the
  position and the point last passed to \<open>camera.lookAt\<close>. What else moves the camera
  (the scene's \<open>OrbitControls\<close>) is not part of the model.
\<close>

record CameraController_state =
  smoothedPlanet :: Vector3
  smoothedCamera :: Vector3
  lastDir :: Vector3
  isActive :: bool
  camera_position :: Vector3
  camera_lookAt :: Vector3

text \<open>
  What one call of the frame callback reads from outside: the store's flag
  \<open>isFocusing\<close>, the result of \<open>getPlanetPosition?.()\<close> (\<open>None\<close> for \<open>null\<close>),
  the clock's elapsed time, the frame's \<open>delta\<close>, and the direction
  \<open>camera.getWorldDirection\<close> would report.
\<close>

record frame_input =
  isFocusing :: bool
  target :: "Vector3 option"
  time :: real
  delta :: real
  worldDirection :: Vector3

text \<open>The refs as the component creates them; the camera starts where the canvas put it.\<close>

definition initial_state :: "Vector3 \<Rightarrow> CameraController_state" where
  "initial_state cameraPos =
     \<lparr> smoothedPlanet = Vector3 0 0 0,
       smoothedCamera = Vector3 0 40 120,
       lastDir = Vector3 0 0 (-1),
       isActive = False,
       camera_position = cameraPos,
       camera_lookAt = Vector3 0 0 0 \<rparr>"

text \<open>
  The point the camera is steered to in follow mode: an orbit of radius
  \<open>orbitRadius + zoomPulse\<close> around the smoothed planet, \<open>orbitHeight\<close> above it.
\<close>

definition desired :: "Vector3 \<Rightarrow> real \<Rightarrow> Vector3" where
  "desired sp t =
     (let orbitRadius = 10;
          orbitSpeed = 0.2;
          orbitHeight = 3;
          zoomPulse = sin (t * 0.5) * 1.2;
          currentRadius = orbitRadius + zoomPulse;
          orbitX = sin (t * orbitSpeed) * currentRadius;
          orbitZ = cos (t * orbitSpeed) * currentRadius
      in Vector3 (vx sp + orbitX) (vy sp + orbitHeight) (vz sp + orbitZ))"

text \<open>The branch taken when \<open>isFocusing && target\<close> holds, with \<open>tg\<close> the target.\<close>

definition follow :: "Vector3 \<Rightarrow> frame_input \<Rightarrow> CameraController_state \<Rightarrow> CameraController_state" where
  "follow tg inp s =
     (let s1 = (if \<not> isActive s then s\<lparr> lastDir := worldDirection inp, isActive := True \<rparr> else s);
          sp = lerp (smoothedPlanet s1) tg (1 - exp (- delta inp * 4));
          sc = lerp (smoothedCamera s1) (desired sp (time inp)) (1 - exp (- delta inp * 3))
      in s1\<lparr> smoothedPlanet := sp, smoothedCamera := sc,
              camera_position := sc, camera_lookAt := sp \<rparr>)"

text \<open>The \<open>else\<close> branch: back to the default system view.\<close>

definition reset_view :: "CameraController_state \<Rightarrow> CameraController_state" where
  "reset_view s =
     (let s1 = (if isActive s then s\<lparr> isActive := False \<rparr> else s);
          defaultPos = Vector3 0 40 120;
          sc = lerp (smoothedCamera s1) defaultPos 0.05;
          sp = lerp (smoothedPlanet s1) (Vector3 0 0 0) 0.05
      in s1\<lparr> smoothedCamera := sc, smoothedPlanet := sp,
              camera_position := sc, camera_lookAt := sp \<rparr>)"

text \<open>One call of the \<open>useFrame\<close> callback.\<close>

definition useFrame :: "frame_input \<Rightarrow> CameraController_state \<Rightarrow> CameraController_state" where
  "useFrame inp s =
     (case target inp of
        Some tg \<Rightarrow> if isFocusing inp then follow tg inp s else reset_view s
      | None \<Rightarrow> reset_view s)"

section \<open>Scene objects and the planets' orbits\<close>

text \<open>
  A \<open>THREE.Group\<close> in the scene graph: of its fields the frame callbacks touch the
  position and the rotation about the y axis.
\<close>

record Group =
  position :: Vector3
  rotation_y :: real

text \<open>
  The props of the \<open>Planet\<close> component (texture and click handler left out);
  \<open>orbitSpeed\<close> is optional and defaults to 0.2.
\<close>

record PlanetProps =
  name :: string
  size_p :: real
  distance :: real
  rotationSpeed :: real
  orbitSpeed :: "real option"

text \<open>\<open>refGroup?.current || mesh.current\<close>: the group the callback works on, if any.\<close>

definition current_group :: "Group option option \<Rightarrow> Group option \<Rightarrow> Group option" where
  "current_group refGroup mesh =
     (case refGroup of
        Some (Some g) \<Rightarrow> Some g
      | _ \<Rightarrow> mesh)"

text \<open>
  \<open>const t = clock.getElapsedTime() * orbitSpeed\<close>: the angle handed to \<open>Math.cos\<close>
  and \<open>Math.sin\<close>. It is never reduced modulo \<open>2 * pi\<close>.
\<close>

definition orbit_angle :: "real \<Rightarrow> real \<Rightarrow> real" where
  "orbit_angle elapsed speed = elapsed * speed"

text \<open>The speed \<open>Planet\<close> works with: the prop, or the default of the destructuring.\<close>

definition orbitSpeed_of :: "PlanetProps \<Rightarrow> real" where
  "orbitSpeed_of p = (case orbitSpeed p of None \<Rightarrow> 0.2 | Some sp \<Rightarrow> sp)"

text \<open>
  The frame callback of \<open>Planet\<close>: self rotation, then the orbit around the sun.
  Without a group nothing is written; otherwise the result is the group as the
  callback leaves it.
\<close>

definition Planet_useFrame ::
  "PlanetProps \<Rightarrow> real \<Rightarrow> Group option option \<Rightarrow> Group option \<Rightarrow> Group option" where
  "Planet_useFrame p elapsed refGroup mesh =
     (case current_group refGroup mesh of
        None \<Rightarrow> None
      | Some g \<Rightarrow>
          (let t = orbit_angle elapsed (orbitSpeed_of p)
           in Some (g\<lparr> rotation_y := rotation_y g + rotationSpeed p,
                       position := Vector3 (distance p * cos t) 0 (distance p * sin t) \<rparr>)))"

text \<open>
  The planet records of the eight-planet scene (\<open>PlanetData\<close>); there \<open>orbitSpeed\<close>
  is mandatory and Saturn carries a ring (inner and outer radius).
\<close>

record PlanetData =
  planet_name :: string
  planet_size :: real
  planet_distance :: real
  planet_rotationSpeed :: real
  planet_orbitSpeed :: real
  planet_ring :: "(real \<times> real) option"

text \<open>The frame callback of \<open>PlanetGroup\<close>: \<open>position.set(x, 0, z)\<close> when the ref is filled.\<close>

definition PlanetGroup_useFrame :: "PlanetData \<Rightarrow> real \<Rightarrow> Group option \<Rightarrow> Group option" where
  "PlanetGroup_useFrame planet elapsed current =
     (let t = orbit_angle elapsed (planet_orbitSpeed planet);
          x = planet_distance planet * cos t;
          z = planet_distance planet * sin t
      in case current of
           None \<Rightarrow> None
         | Some g \<Rightarrow> Some (g\<lparr> position := Vector3 x 0 z \<rparr>))"

text \<open>The responsive scale of the eight-planet scene, from the window width.\<close>

definition scaleFactor :: "real \<Rightarrow> real" where
  "scaleFactor width = (if width < 480 then 0.9 else if width < 1024 then 0.8 else 1)"

definition cameraPos :: "real \<Rightarrow> Vector3" where
  "cameraPos width =
     (if width < 480 then Vector3 0 25 80
      else if width < 1024 then Vector3 0 35 110
      else Vector3 0 40 120)"

definition planets :: "real \<Rightarrow> PlanetData list" where
  "planets width =
     (let sf = scaleFactor width in
      [ \<lparr> planet_name = ''Mercury'', planet_size = 0.8 * sf, planet_distance = 10 * sf,
          planet_rotationSpeed = 0.02, planet_orbitSpeed = 1.0, planet_ring = None \<rparr>,
        \<lparr> planet_name = ''Venus'', planet_size = 1.2 * sf, planet_distance = 14 * sf,
          planet_rotationSpeed = 0.015, planet_orbitSpeed = 0.8, planet_ring = None \<rparr>,
        \<lparr> planet_name = ''Earth'', planet_size = 1.3 * sf, planet_distance = 18 * sf,
          planet_rotationSpeed = 0.02, planet_orbitSpeed = 0.6, planet_ring = None \<rparr>,
        \<lparr> planet_name = ''Mars'', planet_size = 1.0 * sf, planet_distance = 23 * sf,
          planet_rotationSpeed = 0.018, planet_orbitSpeed = 0.5, planet_ring = None \<rparr>,
        \<lparr> planet_name = ''Jupiter'', planet_size = 3.5 * sf, planet_distance = 32 * sf,
          planet_rotationSpeed = 0.04, planet_orbitSpeed = 0.25, planet_ring = None \<rparr>,
        \<lparr> planet_name = ''Saturn'', planet_size = 3.0 * sf, planet_distance = 42 * sf,
          planet_rotationSpeed = 0.038, planet_orbitSpeed = 0.18,
          planet_ring = Some (3.5 * sf, 5.5 * sf) \<rparr>,
        \<lparr> planet_name = ''Uranus'', planet_size = 2.3 * sf, planet_distance = 50 * sf,
          planet_rotationSpeed = 0.03, planet_orbitSpeed = 0.12, planet_ring = None \<rparr>,
        \<lparr> planet_name = ''Neptune'', planet_size = 2.2 * sf, planet_distance = 58 * sf,
          planet_rotationSpeed = 0.028, planet_orbitSpeed = 0.1, planet_ring = None \<rparr> ])"

text \<open>The four planets of the self-contained scene; none sets \<open>orbitSpeed\<close>.\<close>

definition planets4 :: "PlanetProps list" where
  "planets4 =
     [ \<lparr> name = ''Mercury'', size_p = 1, distance = 8, rotationSpeed = 0.02, orbitSpeed = None \<rparr>,
       \<lparr> name = ''Venus'', size_p = 1.5, distance = 12, rotationSpeed = 0.015, orbitSpeed = None \<rparr>,
       \<lparr> name = ''Earth'', size_p = 2, distance = 16, rotationSpeed = 0.02, orbitSpeed = None \<rparr>,
       \<lparr> name = ''Mars'', size_p = 1.2, distance = 20, rotationSpeed = 0.018, orbitSpeed = None \<rparr> ]"

section \<open>The eight-planet scene: selection, position getter, info panel\<close>

text \<open>JavaScript truthiness of a \<open>string | null\<close>: \<open>null\<close> and the empty string are falsy.\<close>

definition truthy :: "string option \<Rightarrow> bool" where
  "truthy v = (case v of None \<Rightarrow> False | Some n \<Rightarrow> n \<noteq> [])"

text \<open>
  \<open>getPlanetPosition\<close>, with the ref \<open>smoothedTarget\<close> it mutates passed in and out.
  \<open>planetRefs\<close> maps a name to its ref (\<open>None\<close>: the lookup yields nothing that has a
  \<open>current\<close>; \<open>Some None\<close>: the ref is empty). \<open>localToWorld\<close> is three.js's method of
  the group, a parameter here.
\<close>

definition getPlanetPosition ::
  "(Group \<Rightarrow> Vector3 \<Rightarrow> Vector3) \<Rightarrow> (string \<rightharpoonup> Group option) \<Rightarrow> string option \<Rightarrow> Vector3
     \<Rightarrow> Vector3 option \<times> Vector3" where
  "getPlanetPosition localToWorld planetRefs sel smoothedTarget =
     (if \<not> truthy sel then (None, smoothedTarget)
      else case sel of
             None \<Rightarrow> (None, smoothedTarget)
           | Some n \<Rightarrow>
               (case planetRefs n of
                  Some (Some g) \<Rightarrow>
                    (let localPos = localToWorld g (Vector3 0 0 0);
                         st = lerp smoothedTarget localPos 0.2
                     in (Some st, st))
                | _ \<Rightarrow> (Some smoothedTarget, smoothedTarget)))"

text \<open>
  The state of \<open>SolarSystem\<close> and of the controller it mounts: the selected name,
  the store's \<open>isFocusing\<close>, the getter's \<open>smoothedTarget\<close> and the controller's refs.
\<close>

record SolarSystem_state =
  selected :: "string option"
  store_isFocusing :: bool
  smoothedTarget :: Vector3
  controller :: CameraController_state

definition SolarSystem_init :: "real \<Rightarrow> SolarSystem_state" where
  "SolarSystem_init width =
     \<lparr> selected = None, store_isFocusing = False, smoothedTarget = Vector3 0 0 0,
       controller = initial_state (cameraPos width) \<rparr>"

definition handleClick :: "string \<Rightarrow> SolarSystem_state \<Rightarrow> SolarSystem_state" where
  "handleClick n st = st\<lparr> selected := Some n, store_isFocusing := True \<rparr>"

definition handleBack :: "SolarSystem_state \<Rightarrow> SolarSystem_state" where
  "handleBack st = st\<lparr> selected := None, store_isFocusing := False \<rparr>"

text \<open>
  One rendered frame of the scene: the controller's callback calls the getter and
  then runs on its result.
\<close>

definition SolarSystem_frame ::
  "(Group \<Rightarrow> Vector3 \<Rightarrow> Vector3) \<Rightarrow> (string \<rightharpoonup> Group option) \<Rightarrow> real \<Rightarrow> real \<Rightarrow> Vector3
     \<Rightarrow> SolarSystem_state \<Rightarrow> SolarSystem_state" where
  "SolarSystem_frame localToWorld planetRefs t dt dir st =
     (case getPlanetPosition localToWorld planetRefs (selected st) (smoothedTarget st) of
        (tg, smt) \<Rightarrow>
          st\<lparr> smoothedTarget := smt,
              controller :=
                useFrame \<lparr> isFocusing = store_isFocusing st, target = tg, time = t,
                           delta = dt, worldDirection = dir \<rparr> (controller st) \<rparr>)"

text \<open>
  A run of frames of the scene; each frame comes with the refs as they are then, the
  elapsed time, the frame's delta and the camera's world direction.
\<close>

fun SolarSystem_frames ::
  "(Group \<Rightarrow> Vector3 \<Rightarrow> Vector3) \<Rightarrow> ((string \<rightharpoonup> Group option) \<times> real \<times> real \<times> Vector3) list
     \<Rightarrow> SolarSystem_state \<Rightarrow> SolarSystem_state" where
  "SolarSystem_frames localToWorld [] st = st"
| "SolarSystem_frames localToWorld ((planetRefs, t, dt, dir) # rest) st =
     SolarSystem_frames localToWorld rest (SolarSystem_frame localToWorld planetRefs t dt dir st)"

text \<open>
  What a property access \<open>obj[key]\<close> can hand to a React element as its child, as far
  as the panels tell the cases apart: \<open>undefined\<close>, a string, a function, or an object
  that is no element.
\<close>

datatype js_value = JSUndefined | JSString string | JSFunction | JSObject

text \<open>
  \<open>obj[key]\<close> on an object literal of strings: the literal's own property if \<open>key\<close> is
  one, otherwise whatever the prototype chain of the JavaScript runtime yields for
  \<open>key\<close> (for \<open>__proto__\<close> the prototype object itself, for \<open>toString\<close> a function,
  \<open>undefined\<close> for most keys). The runtime's part is the parameter \<open>inherited\<close>.
\<close>

definition get_property :: "(string \<Rightarrow> js_value) \<Rightarrow> (string \<times> string) list \<Rightarrow> string \<Rightarrow> js_value" where
  "get_property inherited obj key =
     (case map_of obj key of
        Some v \<Rightarrow> JSString v
      | None \<Rightarrow> inherited key)"

text \<open>
  How React treats a child \<open>{v}\<close>: a string is shown, \<open>undefined\<close> and a function show
  nothing, and an object that is no element makes the render throw.
\<close>

datatype render_error = InvalidChild

definition render_child :: "js_value \<Rightarrow> render_error + string option" where
  "render_child v =
     (case v of
        JSString info \<Rightarrow> Inr (Some info)
      | JSUndefined \<Rightarrow> Inr None
      | JSFunction \<Rightarrow> Inr None
      | JSObject \<Rightarrow> Inl InvalidChild)"

text \<open>The object \<open>planetInfo\<close> of the eight-planet scene: its own properties.\<close>

definition planetInfo :: "(string \<times> string) list" where
  "planetInfo =
     [ (''Mercury'', ''Smallest planet, closest to the Sun.''),
       (''Venus'', ''Hottest planet with dense atmosphere.''),
       (''Earth'', ''Our home world with oceans and life.''),
       (''Mars'', ''The Red Planet, target for exploration.''),
       (''Jupiter'', ''Gas giant with Great Red Spot.''),
       (''Saturn'', ''Known for its magnificent rings.''),
       (''Uranus'', ''An ice giant tilted on its side.''),
       (''Neptune'', ''Cold, windy, and farthest planet.'') ]"

text \<open>
  What \<open>InfoPanel\<close> renders: the heading (the name) and the paragraph whose child is
  \<open>planetInfo[name]\<close>; the render fails when React refuses that child.
\<close>

record InfoPanel_view =
  panel_heading :: string
  panel_info :: "string option"

definition InfoPanel :: "(string \<Rightarrow> js_value) \<Rightarrow> string \<Rightarrow> render_error + InfoPanel_view" where
  "InfoPanel inherited n =
     (case render_child (get_property inherited planetInfo n) of
        Inl e \<Rightarrow> Inl e
      | Inr info \<Rightarrow> Inr \<lparr> panel_heading = n, panel_info = info \<rparr>)"

text \<open>\<open>{selected && <InfoPanel name={selected} />}\<close>: the panel \<open>SolarSystem\<close> renders.\<close>

definition SolarSystem_panel ::
  "(string \<Rightarrow> js_value) \<Rightarrow> SolarSystem_state \<Rightarrow> render_error + InfoPanel_view option" where
  "SolarSystem_panel inherited st =
     (if truthy (selected st)
      then (case selected st of
              Some n \<Rightarrow>
                (case InfoPanel inherited n of
                   Inl e \<Rightarrow> Inl e
                 | Inr view \<Rightarrow> Inr (Some view))
            | None \<Rightarrow> Inr None)
      else Inr None)"

text \<open>
  What the user can do to the selection: click the group of one of the scene's planets
  (the handler receives \<open>planet.name\<close>) or click the back button.
\<close>

datatype ui_event = ClickPlanet PlanetData | ClickBack

fun ui_step :: "ui_event \<Rightarrow> SolarSystem_state \<Rightarrow> SolarSystem_state" where
  "ui_step (ClickPlanet p) st = handleClick (planet_name p) st"
| "ui_step ClickBack st = handleBack st"

fun ui_run :: "ui_event list \<Rightarrow> SolarSystem_state \<Rightarrow> SolarSystem_state" where
  "ui_run [] st = st"
| "ui_run (e # es) st = ui_run es (ui_step e st)"

text \<open>An event is one the rendered scene offers: only the listed planets can be clicked.\<close>

fun offered :: "real \<Rightarrow> ui_event \<Rightarrow> bool" where
  "offered width (ClickPlanet p) = (p \<in> set (planets width))"
| "offered width ClickBack = True"

section \<open>The orbiting camera controllers and the four-planet scene\<close>

text \<open>
  The controller of \<open>CameraController.tsx\<close> and the one inside the self-contained
  four-planet scene share their two branches. Each keeps the orbit angle in a variable
  of the component body and writes the camera (position and the point looked at).
\<close>

record OrbitCamera_state =
  angle :: real
  cam_position :: Vector3
  cam_lookAt :: Vector3

text \<open>
  The point the free orbit steers to: on the circle of radius 60 at the current
  angle, shifted by five times the pointer coordinates; the height swings around 20
  with the phase \<open>ph\<close> the caller takes from its clock.
\<close>

definition orbit_point :: "real \<Rightarrow> real \<times> real \<Rightarrow> real \<Rightarrow> Vector3" where
  "orbit_point a mouse ph =
     (let radius = 60;
          height = 20;
          x = radius * cos a + fst mouse * 5;
          z = radius * sin a + snd mouse * 5;
          y = height + sin ph * 5
      in Vector3 x y z)"

text \<open>The \<open>else\<close> branch of both orbiting controllers: advance the angle, blend, look at the origin.\<close>

definition free_orbit :: "real \<times> real \<Rightarrow> real \<Rightarrow> OrbitCamera_state \<Rightarrow> OrbitCamera_state" where
  "free_orbit mouse ph s =
     (let rotationSpeed = 0.001;
          a = angle s + rotationSpeed
      in s\<lparr> angle := a,
             cam_position := lerp (cam_position s) (orbit_point a mouse ph) 0.05,
             cam_lookAt := Vector3 0 0 0 \<rparr>)"

text \<open>The focus branch of both: blend toward the planet plus (0, 5, 15), look 2 above it.\<close>

definition focus_on :: "Vector3 \<Rightarrow> OrbitCamera_state \<Rightarrow> OrbitCamera_state" where
  "focus_on planetPos s =
     (let desiredPos = add planetPos (Vector3 0 5 15)
      in s\<lparr> cam_position := lerp (cam_position s) desiredPos 0.08,
             cam_lookAt := add planetPos (Vector3 0 2 0) \<rparr>)"

text \<open>
  The frame callback of the four-planet scene's controller: the target is a name, the
  planet is found through \<open>planetRefs\<close>, the height's phase is
  \<open>performance.now() * 0.002\<close>.
\<close>

definition useFrame_byName ::
  "string option \<Rightarrow> (string \<rightharpoonup> Group option) \<Rightarrow> real \<times> real \<Rightarrow> real
     \<Rightarrow> OrbitCamera_state \<Rightarrow> OrbitCamera_state" where
  "useFrame_byName targetPlanetName planetRefs mouse now s =
     (if truthy targetPlanetName
      then (case targetPlanetName of
              None \<Rightarrow> s
            | Some n \<Rightarrow>
                (case planetRefs n of
                   Some (Some g) \<Rightarrow> focus_on (position g) s
                 | _ \<Rightarrow> s))
      else free_orbit mouse (now * 0.002) s)"

text \<open>
  The frame callback of the controller in \<open>CameraController.tsx\<close>: the store holds a
  position or \<open>null\<close>, the prop \<open>getPlanetPosition\<close> may be absent (\<open>None\<close>) and its
  call may return \<open>null\<close> (\<open>Some None\<close>); the height's phase is the elapsed time
  times 0.2.
\<close>

definition useFrame_byPosition ::
  "Vector3 option \<Rightarrow> Vector3 option option \<Rightarrow> real \<times> real \<Rightarrow> real
     \<Rightarrow> OrbitCamera_state \<Rightarrow> OrbitCamera_state" where
  "useFrame_byPosition targetPlanet getter mouse elapsed s =
     (case (targetPlanet, getter) of
        (Some tp, Some res) \<Rightarrow>
          (case res of
             Some planetPos \<Rightarrow> focus_on planetPos s
           | None \<Rightarrow> s)
      | _ \<Rightarrow> free_orbit mouse (elapsed * 0.2) s)"

text \<open>
  Both components declare \<open>let angle = 0\<close> in their body, so every render of the
  component starts the callback's angle from 0 again.
\<close>

definition render_controller :: "OrbitCamera_state \<Rightarrow> OrbitCamera_state" where
  "render_controller s = s\<lparr> angle := 0 \<rparr>"

text \<open>The object \<open>planetInfo\<close> of the four-planet scene: its own properties.\<close>

definition planetInfo4 :: "(string \<times> string) list" where
  "planetInfo4 =
     [ (''Mercury'', ''Smallest planet, closest to the Sun''),
       (''Venus'', ''Hottest planet with thick clouds''),
       (''Earth'', ''Our home planet with abundant life''),
       (''Mars'', ''The Red Planet, potential for future colonies'') ]"

text \<open>
  \<open>InfoOverlay\<close>: nothing for a falsy name (no lookup happens), otherwise a box whose
  child is \<open>planetInfo[targetPlanetName]\<close>; the render fails when React refuses that
  child.
\<close>

definition InfoOverlay ::
  "(string \<Rightarrow> js_value) \<Rightarrow> string option \<Rightarrow> render_error + string option option" where
  "InfoOverlay inherited targetPlanetName =
     (if \<not> truthy targetPlanetName then Inr None
      else case targetPlanetName of
             None \<Rightarrow> Inr None
           | Some n \<Rightarrow>
               (case render_child (get_property inherited planetInfo4 n) of
                  Inl e \<Rightarrow> Inl e
                | Inr content \<Rightarrow> Inr (Some content)))"

section \<open>The overlay keyed by position\<close>

text \<open>
  \<open>OverlayInfo\<close> reads a selected position from the store and finds the planet whose
  distance is within one unit of the position's x coordinate.
\<close>

record overlay_planet =
  op_name :: string
  op_distance :: real
  op_info :: string

definition overlay_planets :: "overlay_planet list" where
  "overlay_planets =
     [ \<lparr> op_name = ''Mercury'', op_distance = 8, op_info = ''Smallest planet, closest to the Sun'' \<rparr>,
       \<lparr> op_name = ''Venus'', op_distance = 12, op_info = ''Hottest planet with thick clouds'' \<rparr>,
       \<lparr> op_name = ''Earth'', op_distance = 16, op_info = ''Our home planet'' \<rparr>,
       \<lparr> op_name = ''Mars'', op_distance = 20, op_info = ''The Red Planet'' \<rparr> ]"

text \<open>The effect that sets the \<open>info\<close> state from the store's \<open>targetPlanet\<close>.\<close>

definition OverlayInfo_effect :: "Vector3 option \<Rightarrow> string" where
  "OverlayInfo_effect targetPlanet =
     (case targetPlanet of
        Some tp \<Rightarrow>
          (let x = vx tp
           in case find (\<lambda>p. \<bar>op_distance p - x\<bar> < 1) overlay_planets of
                Some planet \<Rightarrow> op_info planet
              | None \<Rightarrow> [])
      | None \<Rightarrow> [])"

text \<open>The render: nothing for an empty \<open>info\<close>, otherwise a box showing it.\<close>

definition OverlayInfo_render :: "string \<Rightarrow> string option" where
  "OverlayInfo_render info = (if info = [] then None else Some info)"

text \<open>
  The effect runs after a render and its \<open>setInfo\<close> renders again, so what stays on
  screen for a stored position is the render of the effect's result.
\<close>

definition OverlayInfo :: "Vector3 option \<Rightarrow> string option" where
  "OverlayInfo targetPlanet = OverlayInfo_render (OverlayInfo_effect targetPlanet)"

section \<open>Smoothing steps\<close>

lemma lerp_sel [simp]:
  "vx (lerp a b t) = vx a + (vx b - vx a) * t"
  "vy (lerp a b t) = vy a + (vy b - vy a) * t"
  "vz (lerp a b t) = vz a + (vz b - vz a) * t"
  by (simp_all add: lerp_def)

lemma blend_between:
  fixes v d a :: real
  assumes "0 \<le> a" "a \<le> 1"
  shows "min v d \<le> v + (d - v) * a" "v + (d - v) * a \<le> max v d"
proof -
  have eq: "v + (d - v) * a = (1 - a) * v + a * d" by (simp add: algebra_simps)
  have lo: "(1 - a) * min v d + a * min v d \<le> (1 - a) * v + a * d"
    using assms by (intro add_mono mult_left_mono) simp_all
  have hi: "(1 - a) * v + a * d \<le> (1 - a) * max v d + a * max v d"
    using assms by (intro add_mono mult_left_mono) simp_all
  show "min v d \<le> v + (d - v) * a" using lo by (simp add: eq algebra_simps)
  show "v + (d - v) * a \<le> max v d" using hi by (simp add: eq algebra_simps)
qed

lemma decay_factor_range:
  fixes k dt :: real
  assumes "0 \<le> k" "0 \<le> dt"
  shows "0 \<le> 1 - exp (- dt * k)" "1 - exp (- dt * k) < 1"
proof -
  have "- dt * k \<le> 0" using assms by (simp add: mult_nonneg_nonneg)
  then have "exp (- dt * k) \<le> 1" by (simp only: exp_le_one_iff)
  then show "0 \<le> 1 - exp (- dt * k)" by simp
  show "1 - exp (- dt * k) < 1" by simp
qed

lemma blend_twice:
  fixes v d p q :: real
  shows "(v + (d - v) * (1 - p)) + (d - (v + (d - v) * (1 - p))) * (1 - q) = v + (d - v) * (1 - p * q)"
  by (simp add: algebra_simps)

lemma decay_add:
  fixes k a b :: real
  shows "exp (- (k * (a + b))) = exp (- (k * a)) * exp (- (k * b))"
  by (simp add: exp_add [symmetric] algebra_simps)

lemma lerp_twice:
  "lerp (lerp v d (1 - exp (- (k * a)))) d (1 - exp (- (k * b))) = lerp v d (1 - exp (- (k * (a + b))))"
  unfolding decay_add by (simp add: lerp_def blend_twice)

text \<open>
  C6. For a blend factor \<open>\<alpha>\<close> between 0 and 1 the smoothing step
  \<open>lerp v d \<alpha>\<close> is the convex combination \<open>(1 - \<alpha>) v + \<alpha> d\<close>, so each component
  of the result lies between the components of the previous value \<open>v\<close> and of the
  desired value \<open>d\<close>: the step never overshoots. The factors \<open>1 - e^(-k \<Delta>t)\<close> of the
  follow branch, with \<open>k\<close> and \<open>\<Delta>t\<close> not negative, are such factors.
\<close>

theorem C6_lerp_convex:
  fixes \<alpha> k dt :: real
  assumes "0 \<le> \<alpha>" "\<alpha> \<le> 1"
  shows "lerp v d \<alpha> = Vector3 ((1 - \<alpha>) * vx v + \<alpha> * vx d)
                            ((1 - \<alpha>) * vy v + \<alpha> * vy d)
                            ((1 - \<alpha>) * vz v + \<alpha> * vz d)
       \<and> min (vx v) (vx d) \<le> vx (lerp v d \<alpha>) \<and> vx (lerp v d \<alpha>) \<le> max (vx v) (vx d)
       \<and> min (vy v) (vy d) \<le> vy (lerp v d \<alpha>) \<and> vy (lerp v d \<alpha>) \<le> max (vy v) (vy d)
       \<and> min (vz v) (vz d) \<le> vz (lerp v d \<alpha>) \<and> vz (lerp v d \<alpha>) \<le> max (vz v) (vz d)
       \<and> (0 \<le> k \<and> 0 \<le> dt \<longrightarrow> 0 \<le> 1 - exp (- dt * k) \<and> 1 - exp (- dt * k) \<le> 1)"
proof -
  have eq: "lerp v d \<alpha> = Vector3 ((1 - \<alpha>) * vx v + \<alpha> * vx d)
                            ((1 - \<alpha>) * vy v + \<alpha> * vy d)
                            ((1 - \<alpha>) * vz v + \<alpha> * vz d)"
    by (simp add: lerp_def algebra_simps)
  have x: "min (vx v) (vx d) \<le> vx (lerp v d \<alpha>) \<and> vx (lerp v d \<alpha>) \<le> max (vx v) (vx d)"
    using blend_between [OF assms, of "vx v" "vx d"] by simp
  have y: "min (vy v) (vy d) \<le> vy (lerp v d \<alpha>) \<and> vy (lerp v d \<alpha>) \<le> max (vy v) (vy d)"
    using blend_between [OF assms, of "vy v" "vy d"] by simp
  have z: "min (vz v) (vz d) \<le> vz (lerp v d \<alpha>) \<and> vz (lerp v d \<alpha>) \<le> max (vz v) (vz d)"
    using blend_between [OF assms, of "vz v" "vz d"] by simp
  have f: "0 \<le> k \<and> 0 \<le> dt \<longrightarrow> 0 \<le> 1 - exp (- dt * k) \<and> 1 - exp (- dt * k) \<le> 1"
    using decay_factor_range [of k dt] by simp
  from eq x y z f show ?thesis by blast
qed

theorem C6_lerp_convex_witness:
  "lerp (Vector3 0 0 0) (Vector3 2 4 6) (1/2) = Vector3 1 2 3
   \<and> min 0 2 \<le> vx (lerp (Vector3 0 0 0) (Vector3 2 4 6) (1/2))
   \<and> vx (lerp (Vector3 0 0 0) (Vector3 2 4 6) (1/2)) \<le> max 0 2
   \<and> min 0 4 \<le> vy (lerp (Vector3 0 0 0) (Vector3 2 4 6) (1/2))
   \<and> vy (lerp (Vector3 0 0 0) (Vector3 2 4 6) (1/2)) \<le> max 0 4
   \<and> min 0 6 \<le> vz (lerp (Vector3 0 0 0) (Vector3 2 4 6) (1/2))
   \<and> vz (lerp (Vector3 0 0 0) (Vector3 2 4 6) (1/2)) \<le> max 0 6
   \<and> 0 \<le> 1 - exp (- (1/60) * 4 :: real) \<and> 1 - exp (- (1/60) * 4 :: real) \<le> 1"
  using C6_lerp_convex [where \<alpha> = "1/2" and k = 4 and dt = "1/60"
      and v = "Vector3 0 0 0" and d = "Vector3 2 4 6"]
  by simp

section \<open>Follow mode\<close>



lemma follow_smoothedPlanet:
  assumes "isFocusing inp" "target inp = Some tg"
  shows "smoothedPlanet (useFrame inp s) = lerp (smoothedPlanet s) tg (1 - exp (- (4 * delta inp)))"
  using assms by (simp add: useFrame_def follow_def Let_def mult.commute)

lemma follow_smoothedCamera:
  assumes "isFocusing inp" "target inp = Some tg"
  shows "smoothedCamera (useFrame inp s) =
          lerp (smoothedCamera s) (desired (smoothedPlanet (useFrame inp s)) (time inp))
               (1 - exp (- (3 * delta inp)))"
  using assms by (simp add: useFrame_def follow_def Let_def mult.commute)



lemma follow_two_frames:
  assumes "isFocusing i1" "target i1 = Some tg" "isFocusing i2" "target i2 = Some tg"
      "isFocusing i12" "target i12 = Some tg" "delta i12 = delta i1 + delta i2"
  shows "smoothedPlanet (useFrame i2 (useFrame i1 s)) = smoothedPlanet (useFrame i12 s)"
  using assms by (simp add: follow_smoothedPlanet lerp_twice)

lemma focus_on_position:
  "cam_position (focus_on planetPos c) = lerp (cam_position c) (add planetPos (Vector3 0 5 15)) 0.08"
  by (simp add: focus_on_def Let_def)

lemma byPosition_focus:
  "useFrame_byPosition (Some tp) (Some (Some planetPos)) mouse elapsed c = focus_on planetPos c"
  by (simp add: useFrame_byPosition_def)

lemma byName_focus:
  "truthy (Some n) \<Longrightarrow> planetRefs n = Some (Some g) \<Longrightarrow>
     useFrame_byName (Some n) planetRefs mouse now c = focus_on (position g) c"
  by (simp add: useFrame_byName_def)

text \<open>
  C1, as the code has it. The controller with smoothed state, on a frame with
  \<open>isFocusing\<close> set and a target \<open>tg\<close>, sets the smoothed planet to
  \<open>lerp smoothedPlanet tg (1 - e^(-4 \<Delta>t))\<close> and the smoothed camera to
  \<open>lerp smoothedCamera desired (1 - e^(-3 \<Delta>t))\<close>; the two blend factors depend on
  \<open>\<Delta>t\<close> only, and toward a fixed target two frames of \<open>\<Delta>t1\<close> and \<open>\<Delta>t2\<close> leave the
  smoothed planet where one frame of \<open>\<Delta>t1 + \<Delta>t2\<close> leaves it. The two orbiting
  controllers keep no smoothed target; their focus branch moves the camera by the
  constant factor 0.08 toward the planet plus (0, 5, 15), whatever the frame's
  \<open>\<Delta>t\<close>.
\<close>

theorem C1_focus_smoothing:
  "(isFocusing inp \<and> target inp = Some tg \<longrightarrow>
      smoothedPlanet (useFrame inp s)
        = lerp (smoothedPlanet s) tg (1 - exp (- (4 * delta inp)))
    \<and> smoothedCamera (useFrame inp s)
        = lerp (smoothedCamera s) (desired (smoothedPlanet (useFrame inp s)) (time inp))
               (1 - exp (- (3 * delta inp))))
   \<and> (isFocusing i1 \<and> target i1 = Some tg \<and> isFocusing i2 \<and> target i2 = Some tg
        \<and> isFocusing i12 \<and> target i12 = Some tg \<and> delta i12 = delta i1 + delta i2 \<longrightarrow>
      smoothedPlanet (useFrame i2 (useFrame i1 s)) = smoothedPlanet (useFrame i12 s))
   \<and> cam_position (useFrame_byPosition (Some tp) (Some (Some planetPos)) mouse elapsed c)
        = lerp (cam_position c) (add planetPos (Vector3 0 5 15)) 0.08
   \<and> (truthy (Some n) \<and> planetRefs n = Some (Some g) \<longrightarrow>
      cam_position (useFrame_byName (Some n) planetRefs mouse now c)
        = lerp (cam_position c) (add (position g) (Vector3 0 5 15)) 0.08)"
  using follow_smoothedPlanet [of inp tg s] follow_smoothedCamera [of inp tg s]
    follow_two_frames [of i1 tg i2 i12 s]
    byName_focus [of n planetRefs g mouse now c]
  by (simp add: byPosition_focus focus_on_position)

theorem C1_focus_smoothing_witness:
  "smoothedPlanet
      (useFrame \<lparr> isFocusing = True, target = Some (Vector3 18 0 0), time = 0, delta = 1/60,
                  worldDirection = Vector3 0 0 (-1) \<rparr> (initial_state (Vector3 0 40 120)))
     = lerp (Vector3 0 0 0) (Vector3 18 0 0) (1 - exp (- (4 * (1/60))))
   \<and> cam_position
        (useFrame_byName (Some ''Earth'')
           [''Earth'' \<mapsto> Some \<lparr> position = Vector3 0 0 0, rotation_y = 0 \<rparr>] (0, 0) 0
           \<lparr> angle = 0, cam_position = Vector3 0 30 70, cam_lookAt = Vector3 0 0 0 \<rparr>)
     = lerp (Vector3 0 30 70) (add (Vector3 0 0 0) (Vector3 0 5 15)) 0.08"
  using C1_focus_smoothing
    [where inp = "\<lparr> isFocusing = True, target = Some (Vector3 18 0 0), time = 0, delta = 1/60,
                     worldDirection = Vector3 0 0 (-1) \<rparr>"
       and tg = "Vector3 18 0 0" and s = "initial_state (Vector3 0 40 120)"
       and n = "''Earth''"
       and planetRefs = "[''Earth'' \<mapsto> Some \<lparr> position = Vector3 0 0 0, rotation_y = 0 \<rparr>]"
       and g = "\<lparr> position = Vector3 0 0 0, rotation_y = 0 \<rparr>"
       and mouse = "(0, 0)" and now = 0
       and c = "\<lparr> angle = 0, cam_position = Vector3 0 30 70, cam_lookAt = Vector3 0 0 0 \<rparr>"]
  by (simp add: initial_state_def truthy_def)

text \<open>
  Where the claim as written fails: the focus branch of \<open>CameraController.tsx\<close> moves
  the camera from (0, 30, 70) by 8% toward (16, 5, 15) on a frame, while a step with
  the factor \<open>1 - e^(-3 \<Delta>t)\<close> at \<open>\<Delta>t = 0\<close> would leave it in place.
\<close>

theorem C1_counterexample:
  "cam_position (useFrame_byPosition (Some (Vector3 16 0 0)) (Some (Some (Vector3 16 0 0))) (0, 0) 0
       \<lparr> angle = 0, cam_position = Vector3 0 30 70, cam_lookAt = Vector3 0 0 0 \<rparr>)
     = Vector3 1.28 28 65.6
   \<and> lerp (Vector3 0 30 70) (add (Vector3 16 0 0) (Vector3 0 5 15)) (1 - exp (- (3 * 0)))
     = Vector3 0 30 70"
  by (simp add: useFrame_byPosition_def focus_on_def add_def lerp_def)

section \<open>Orbits\<close>

lemma orbit_circle:
  fixes r a :: real
  shows "(r * cos a)\<^sup>2 + (r * sin a)\<^sup>2 = r\<^sup>2"
proof -
  have "(r * cos a)\<^sup>2 + (r * sin a)\<^sup>2 = r\<^sup>2 * ((cos a)\<^sup>2 + (sin a)\<^sup>2)"
    by (simp only: power_mult_distrib distrib_left)
  then show ?thesis by simp
qed

lemma Planet_position:
  "Planet_useFrame p t refGroup mesh = Some g \<Longrightarrow>
     position g = Vector3 (distance p * cos (orbit_angle t (orbitSpeed_of p))) 0
                          (distance p * sin (orbit_angle t (orbitSpeed_of p)))"
  by (auto simp: Planet_useFrame_def Let_def split: option.splits)

lemma PlanetGroup_position:
  "PlanetGroup_useFrame pd t cur = Some g \<Longrightarrow>
     position g = Vector3 (planet_distance pd * cos (orbit_angle t (planet_orbitSpeed pd))) 0
                          (planet_distance pd * sin (orbit_angle t (planet_orbitSpeed pd)))"
  by (auto simp: PlanetGroup_useFrame_def Let_def split: option.splits)

lemma Planet_writes:
  "(Planet_useFrame p t refGroup mesh = None) = (current_group refGroup mesh = None)"
  by (simp add: Planet_useFrame_def Let_def split: option.splits)

lemma PlanetGroup_writes: "(PlanetGroup_useFrame pd t cur = None) = (cur = None)"
  by (simp add: PlanetGroup_useFrame_def Let_def split: option.splits)

text \<open>
  C2. Whatever the elapsed time \<open>t\<close>, the position the orbit update writes into a
  planet's group satisfies \<open>x\<^sup>2 + z\<^sup>2 = r\<^sup>2\<close> and \<open>y = 0\<close>, with \<open>r\<close> the planet's
  distance: the planet is at distance \<open>r\<close> from the origin in the horizontal plane.
  This holds of \<open>Planet\<close> and of \<open>PlanetGroup\<close>; each writes whenever its group
  exists.
\<close>

theorem C2_orbit_radius:
  "(Planet_useFrame p t refGroup mesh = Some g \<longrightarrow>
      (vx (position g))\<^sup>2 + (vz (position g))\<^sup>2 = (distance p)\<^sup>2
    \<and> vy (position g) = 0
    \<and> sqrt ((vx (position g))\<^sup>2 + (vz (position g))\<^sup>2) = \<bar>distance p\<bar>)
   \<and> (PlanetGroup_useFrame pd t cur = Some g' \<longrightarrow>
      (vx (position g'))\<^sup>2 + (vz (position g'))\<^sup>2 = (planet_distance pd)\<^sup>2
    \<and> vy (position g') = 0
    \<and> sqrt ((vx (position g'))\<^sup>2 + (vz (position g'))\<^sup>2) = \<bar>planet_distance pd\<bar>)
   \<and> (Planet_useFrame p t refGroup mesh = None) = (current_group refGroup mesh = None)
   \<and> (PlanetGroup_useFrame pd t cur = None) = (cur = None)"
proof -
  have a: "(vx (position g))\<^sup>2 + (vz (position g))\<^sup>2 = (distance p)\<^sup>2 \<and> vy (position g) = 0
       \<and> sqrt ((vx (position g))\<^sup>2 + (vz (position g))\<^sup>2) = \<bar>distance p\<bar>"
    if "Planet_useFrame p t refGroup mesh = Some g"
    using Planet_position [OF that] by (simp add: orbit_circle)
  have b: "(vx (position g'))\<^sup>2 + (vz (position g'))\<^sup>2 = (planet_distance pd)\<^sup>2 \<and> vy (position g') = 0
       \<and> sqrt ((vx (position g'))\<^sup>2 + (vz (position g'))\<^sup>2) = \<bar>planet_distance pd\<bar>"
    if "PlanetGroup_useFrame pd t cur = Some g'"
    using PlanetGroup_position [OF that] by (simp add: orbit_circle)
  from a b Planet_writes [of p t refGroup mesh] PlanetGroup_writes [of pd t cur] show ?thesis by blast
qed

theorem C2_orbit_radius_witness:
  "Planet_useFrame \<lparr> name = ''Earth'', size_p = 2, distance = 16, rotationSpeed = 0.02, orbitSpeed = None \<rparr>
      0 None (Some \<lparr> position = Vector3 3 4 5, rotation_y = 0 \<rparr>)
     = Some \<lparr> position = Vector3 16 0 0, rotation_y = 0.02 \<rparr>
   \<and> (vx (Vector3 16 0 0))\<^sup>2 + (vz (Vector3 16 0 0))\<^sup>2 = (16::real)\<^sup>2
   \<and> vy (Vector3 16 0 0) = 0
   \<and> PlanetGroup_useFrame
        \<lparr> planet_name = ''Earth'', planet_size = 1.3, planet_distance = 18,
          planet_rotationSpeed = 0.02, planet_orbitSpeed = 0.6, planet_ring = None \<rparr>
        0 (Some \<lparr> position = Vector3 3 4 5, rotation_y = 0 \<rparr>)
     = Some \<lparr> position = Vector3 18 0 0, rotation_y = 0 \<rparr>
   \<and> (vx (Vector3 18 0 0))\<^sup>2 + (vz (Vector3 18 0 0))\<^sup>2 = (18::real)\<^sup>2"
  using C2_orbit_radius
    [where p = "\<lparr> name = ''Earth'', size_p = 2, distance = 16, rotationSpeed = 0.02, orbitSpeed = None \<rparr>"
       and t = 0 and refGroup = None and mesh = "Some \<lparr> position = Vector3 3 4 5, rotation_y = 0 \<rparr>"
       and cur = "Some \<lparr> position = Vector3 3 4 5, rotation_y = 0 \<rparr>"
       and g = "\<lparr> position = Vector3 16 0 0, rotation_y = 0.02 \<rparr>"
       and pd = "\<lparr> planet_name = ''Earth'', planet_size = 1.3, planet_distance = 18,
                   planet_rotationSpeed = 0.02, planet_orbitSpeed = 0.6, planet_ring = None \<rparr>"
       and g' = "\<lparr> position = Vector3 18 0 0, rotation_y = 0 \<rparr>"]
  by (simp add: Planet_useFrame_def PlanetGroup_useFrame_def current_group_def orbit_angle_def
      orbitSpeed_of_def)

text \<open>
  C3. With orbit radius 16 and angular speed 0.6 the orbit update writes the
  position (16, 0, 0) at elapsed time 0 and (-16, 0, 0) at elapsed time \<open>pi / 0.6\<close>,
  in \<open>Planet\<close> and in \<open>PlanetGroup\<close> alike.
\<close>

theorem C3_orbit_scenario:
  "(distance p = 16 \<and> orbitSpeed p = Some 0.6 \<and> current_group refGroup mesh = Some g \<longrightarrow>
      map_option position (Planet_useFrame p 0 refGroup mesh) = Some (Vector3 16 0 0)
    \<and> map_option position (Planet_useFrame p (pi / 0.6) refGroup mesh) = Some (Vector3 (- 16) 0 0))
   \<and> (planet_distance pd = 16 \<and> planet_orbitSpeed pd = 0.6 \<longrightarrow>
      map_option position (PlanetGroup_useFrame pd 0 (Some g)) = Some (Vector3 16 0 0)
    \<and> map_option position (PlanetGroup_useFrame pd (pi / 0.6) (Some g)) = Some (Vector3 (- 16) 0 0))"
proof -
  have a: "map_option position (Planet_useFrame p 0 refGroup mesh) = Some (Vector3 16 0 0)
       \<and> map_option position (Planet_useFrame p (pi / 0.6) refGroup mesh) = Some (Vector3 (- 16) 0 0)"
    if h: "distance p = 16" "orbitSpeed p = Some 0.6" "current_group refGroup mesh = Some g"
  proof -
    have sp: "orbitSpeed_of p = 0.6" using h(2) by (simp add: orbitSpeed_of_def)
    show ?thesis
      by (simp add: Planet_useFrame_def h(3) Let_def sp orbit_angle_def h(1))
  qed
  have b: "map_option position (PlanetGroup_useFrame pd 0 (Some g)) = Some (Vector3 16 0 0)
       \<and> map_option position (PlanetGroup_useFrame pd (pi / 0.6) (Some g)) = Some (Vector3 (- 16) 0 0)"
    if h: "planet_distance pd = 16" "planet_orbitSpeed pd = 0.6"
    by (simp add: PlanetGroup_useFrame_def Let_def h orbit_angle_def)
  from a b show ?thesis by blast
qed

theorem C3_orbit_scenario_witness:
  "map_option position
      (Planet_useFrame \<lparr> name = ''Earth'', size_p = 2, distance = 16, rotationSpeed = 0.02,
                         orbitSpeed = Some 0.6 \<rparr>
         0 None (Some \<lparr> position = Vector3 0 0 0, rotation_y = 0 \<rparr>))
     = Some (Vector3 16 0 0)
   \<and> map_option position
      (Planet_useFrame \<lparr> name = ''Earth'', size_p = 2, distance = 16, rotationSpeed = 0.02,
                         orbitSpeed = Some 0.6 \<rparr>
         (pi / 0.6) None (Some \<lparr> position = Vector3 0 0 0, rotation_y = 0 \<rparr>))
     = Some (Vector3 (- 16) 0 0)"
  using C3_orbit_scenario
    [where p = "\<lparr> name = ''Earth'', size_p = 2, distance = 16, rotationSpeed = 0.02,
                   orbitSpeed = Some 0.6 \<rparr>"
       and refGroup = None and mesh = "Some \<lparr> position = Vector3 0 0 0, rotation_y = 0 \<rparr>"
       and g = "\<lparr> position = Vector3 0 0 0, rotation_y = 0 \<rparr>"]
  by (simp add: current_group_def)

lemma angle_mono: "0 < s \<Longrightarrow> t1 < t2 \<Longrightarrow> orbit_angle t1 s < orbit_angle t2 s"
  by (simp add: orbit_angle_def)

lemma angle_period: "s \<noteq> 0 \<Longrightarrow> orbit_angle (t + 2 * pi / s) s = orbit_angle t s + 2 * pi"
  by (simp add: orbit_angle_def algebra_simps)

lemma Planet_periodic:
  "orbitSpeed_of p \<noteq> 0 \<Longrightarrow>
     Planet_useFrame p (t + 2 * pi / orbitSpeed_of p) refGroup mesh = Planet_useFrame p t refGroup mesh"
  by (simp add: Planet_useFrame_def angle_period Let_def split: option.splits)

lemma PlanetGroup_periodic:
  "planet_orbitSpeed pd \<noteq> 0 \<Longrightarrow>
     PlanetGroup_useFrame pd (t + 2 * pi / planet_orbitSpeed pd) cur = PlanetGroup_useFrame pd t cur"
  by (simp add: PlanetGroup_useFrame_def angle_period Let_def split: option.splits)

lemma planets_speeds_positive: "\<forall>pd \<in> set (planets w). 0 < planet_orbitSpeed pd"
  by (simp add: planets_def Let_def)

lemma planets4_speeds_positive: "\<forall>p \<in> set planets4. 0 < orbitSpeed_of p"
  by (simp add: planets4_def orbitSpeed_of_def)

text \<open>
  C7, as the code has it. For a positive angular speed \<open>s\<close> and \<open>t1 < t2\<close> the angle
  \<open>t * s\<close> handed to \<open>cos\<close> and \<open>sin\<close> strictly increases. Every planet of the two
  scenes has a positive speed (the default 0.2 included). The code never reduces the
  angle modulo \<open>2 * pi\<close>; the wrap is in the position, which repeats after the time
  \<open>2 * pi / s\<close>.
\<close>

theorem C7_angle_increases:
  "(0 < s \<and> t1 < t2 \<longrightarrow> orbit_angle t1 s < orbit_angle t2 s)
   \<and> (\<forall>pd \<in> set (planets w). 0 < planet_orbitSpeed pd)
   \<and> (\<forall>p \<in> set planets4. 0 < orbitSpeed_of p)
   \<and> (s \<noteq> 0 \<longrightarrow> orbit_angle (t + 2 * pi / s) s = orbit_angle t s + 2 * pi)
   \<and> (orbitSpeed_of p \<noteq> 0 \<longrightarrow>
        Planet_useFrame p (t + 2 * pi / orbitSpeed_of p) refGroup mesh = Planet_useFrame p t refGroup mesh)
   \<and> (planet_orbitSpeed pd \<noteq> 0 \<longrightarrow>
        PlanetGroup_useFrame pd (t + 2 * pi / planet_orbitSpeed pd) cur
          = PlanetGroup_useFrame pd t cur)"
  using angle_mono [of s t1 t2] angle_period [of s t] Planet_periodic [of p t refGroup mesh]
    PlanetGroup_periodic [of pd t cur] planets_speeds_positive [of w] planets4_speeds_positive
  by blast

theorem C7_angle_increases_witness:
  "orbit_angle 0 0.6 < orbit_angle 1 0.6
   \<and> orbit_angle (0 + 2 * pi / 0.6) 0.6 = orbit_angle 0 0.6 + 2 * pi"
  using C7_angle_increases [where s = "0.6" and ?t1.0 = 0 and ?t2.0 = 1 and t = 0]
  by simp

text \<open>
  Where the claim as written fails: a planet given the angular speed 0 has the same
  angle at the elapsed times 1 and 2, and is written to the same place.
\<close>

theorem C7_counterexample:
  "(1::real) < 2
   \<and> \<not> orbit_angle 1 0 < orbit_angle 2 0
   \<and> Planet_useFrame \<lparr> name = ''Earth'', size_p = 2, distance = 16, rotationSpeed = 0,
                        orbitSpeed = Some 0 \<rparr> 1 None (Some \<lparr> position = Vector3 16 0 0, rotation_y = 0 \<rparr>)
     = Planet_useFrame \<lparr> name = ''Earth'', size_p = 2, distance = 16, rotationSpeed = 0,
                          orbitSpeed = Some 0 \<rparr> 2 None (Some \<lparr> position = Vector3 16 0 0, rotation_y = 0 \<rparr>)"
  by (simp add: orbit_angle_def Planet_useFrame_def current_group_def orbitSpeed_of_def)

section \<open>Back to the default view\<close>

lemma reset_view_camera:
  "smoothedCamera (reset_view s) = lerp (smoothedCamera s) (Vector3 0 40 120) 0.05"
  by (simp add: reset_view_def Let_def)

lemma reset_view_planet:
  "smoothedPlanet (reset_view s) = lerp (smoothedPlanet s) (Vector3 0 0 0) 0.05"
  by (simp add: reset_view_def Let_def)

lemma frame_not_focusing:
  "\<not> store_isFocusing st \<Longrightarrow>
     controller (SolarSystem_frame L refs t dt dir st) = reset_view (controller st)
     \<and> store_isFocusing (SolarSystem_frame L refs t dt dir st) = store_isFocusing st"
  by (simp add: SolarSystem_frame_def useFrame_def split: prod.splits option.splits)

lemma lerp_compose: "lerp (lerp v d (1 - p)) d (1 - q) = lerp v d (1 - p * q)"
  by (simp add: lerp_def blend_twice)

lemma lerp_again: "lerp (lerp v d 0.05) d (1 - 0.95 ^ n) = lerp v d (1 - 0.95 ^ Suc n)"
proof -
  have "lerp (lerp v d (1 - 0.95)) d (1 - 0.95 ^ n) = lerp v d (1 - 0.95 * 0.95 ^ n)"
    by (rule lerp_compose)
  moreover have "(1 - 0.95 :: real) = 0.05" by simp
  ultimately show ?thesis by simp
qed

lemma frames_not_focusing:
  "\<not> store_isFocusing st \<Longrightarrow>
     smoothedCamera (controller (SolarSystem_frames L ins st))
       = lerp (smoothedCamera (controller st)) (Vector3 0 40 120) (1 - 0.95 ^ length ins)
   \<and> smoothedPlanet (controller (SolarSystem_frames L ins st))
       = lerp (smoothedPlanet (controller st)) (Vector3 0 0 0) (1 - 0.95 ^ length ins)"
proof (induction ins arbitrary: st)
  case Nil
  show ?case by (simp add: lerp_def)
next
  case (Cons a ins)
  obtain refs t dt dir where a: "a = (refs, t, dt, dir)" by (cases a) auto
  let ?st = "SolarSystem_frame L refs t dt dir st"
  have nf: "\<not> store_isFocusing ?st" and c: "controller ?st = reset_view (controller st)"
    using frame_not_focusing [OF Cons.prems, of L refs t dt dir] Cons.prems by simp_all
  have step: "SolarSystem_frames L (a # ins) st = SolarSystem_frames L ins ?st"
    by (simp only: a SolarSystem_frames.simps)
  have cam: "smoothedCamera (controller (SolarSystem_frames L ins ?st))
       = lerp (lerp (smoothedCamera (controller st)) (Vector3 0 40 120) 0.05) (Vector3 0 40 120)
              (1 - 0.95 ^ length ins)"
    using Cons.IH [OF nf] by (simp only: c reset_view_camera)
  have pl: "smoothedPlanet (controller (SolarSystem_frames L ins ?st))
       = lerp (lerp (smoothedPlanet (controller st)) (Vector3 0 0 0) 0.05) (Vector3 0 0 0)
              (1 - 0.95 ^ length ins)"
    using Cons.IH [OF nf] by (simp only: c reset_view_planet)
  show ?case unfolding step length_Cons cam pl lerp_again by (rule conjI) (rule refl)+
qed

lemma relax_limit:
  fixes a d q :: real
  assumes "norm q < 1"
  shows "(\<lambda>n. a + (d - a) * (1 - q ^ n)) \<longlonglongrightarrow> d"
proof -
  have p: "(\<lambda>n. q ^ n) \<longlonglongrightarrow> 0" using assms by (rule LIMSEQ_power_zero)
  have "(\<lambda>n. a + (d - a) * (1 - q ^ n)) \<longlonglongrightarrow> a + (d - a) * (1 - 0)"
    by (intro tendsto_intros p)
  then show ?thesis by simp
qed

lemma relax_limit_095:
  fixes a d :: real
  shows "(\<lambda>n. a + (d - a) * (1 - 0.95 ^ n)) \<longlonglongrightarrow> d"
  by (rule relax_limit) simp

lemma lerp_limit:
  "(\<lambda>n. vx (lerp c D (1 - 0.95 ^ n))) \<longlonglongrightarrow> vx D"
  "(\<lambda>n. vy (lerp c D (1 - 0.95 ^ n))) \<longlonglongrightarrow> vy D"
  "(\<lambda>n. vz (lerp c D (1 - 0.95 ^ n))) \<longlonglongrightarrow> vz D"
  unfolding lerp_sel by (rule relax_limit_095)+

lemma init_fixed:
  "smoothedCamera (controller (SolarSystem_frames L ins (SolarSystem_init w))) = Vector3 0 40 120
   \<and> smoothedPlanet (controller (SolarSystem_frames L ins (SolarSystem_init w))) = Vector3 0 0 0"
proof -
  have "\<not> store_isFocusing (SolarSystem_init w)" by (simp add: SolarSystem_init_def)
  from frames_not_focusing [OF this, of L ins] show ?thesis
    by (simp add: SolarSystem_init_def initial_state_def lerp_def)
qed

lemma useFrame_places_camera:
  "camera_position (useFrame inp s) = smoothedCamera (useFrame inp s)"
  by (simp add: useFrame_def follow_def reset_view_def Let_def split: option.splits)

lemma frames_place_camera:
  "camera_position (controller (SolarSystem_frames L (x # xs) st))
     = smoothedCamera (controller (SolarSystem_frames L (x # xs) st))"
proof (induction xs arbitrary: x st)
  case Nil
  obtain refs t dt dir where x: "x = (refs, t, dt, dir)" by (cases x) auto
  show ?case
    by (simp add: x SolarSystem_frame_def useFrame_places_camera split: prod.splits)
next
  case (Cons y ys)
  obtain refs t dt dir where x: "x = (refs, t, dt, dir)" by (cases x) auto
  have "SolarSystem_frames L (x # y # ys) st
      = SolarSystem_frames L (y # ys) (SolarSystem_frame L refs t dt dir st)"
    by (simp only: x SolarSystem_frames.simps)
  then show ?case by (simp only: Cons.IH)
qed

text \<open>
  C5. Once the selection is cleared (\<open>handleBack\<close>), every frame blends the smoothed
  camera toward (0, 40, 120) and the smoothed look target toward the origin by the
  fixed factor 0.05: after \<open>n\<close> frames they are the starting values blended by
  \<open>1 - 0.95 ^ n\<close>, so along any endless run of frames they converge to
  (0, 40, 120) and (0, 0, 0), and the camera is placed at the smoothed camera
  position. These are the values the two vectors keep on every frame of a session in
  which nothing was ever selected.
\<close>

theorem C5_relax_to_default:
  "smoothedCamera (controller (SolarSystem_frames L ins (handleBack st)))
       = lerp (smoothedCamera (controller st)) (Vector3 0 40 120) (1 - 0.95 ^ length ins)
   \<and> smoothedPlanet (controller (SolarSystem_frames L ins (handleBack st)))
       = lerp (smoothedPlanet (controller st)) (Vector3 0 0 0) (1 - 0.95 ^ length ins)
   \<and> (\<lambda>n. vx (smoothedCamera (controller (SolarSystem_frames L (map f [0..<n]) (handleBack st))))) \<longlonglongrightarrow> 0
   \<and> (\<lambda>n. vy (smoothedCamera (controller (SolarSystem_frames L (map f [0..<n]) (handleBack st))))) \<longlonglongrightarrow> 40
   \<and> (\<lambda>n. vz (smoothedCamera (controller (SolarSystem_frames L (map f [0..<n]) (handleBack st))))) \<longlonglongrightarrow> 120
   \<and> (\<lambda>n. vx (smoothedPlanet (controller (SolarSystem_frames L (map f [0..<n]) (handleBack st))))) \<longlonglongrightarrow> 0
   \<and> (\<lambda>n. vy (smoothedPlanet (controller (SolarSystem_frames L (map f [0..<n]) (handleBack st))))) \<longlonglongrightarrow> 0
   \<and> (\<lambda>n. vz (smoothedPlanet (controller (SolarSystem_frames L (map f [0..<n]) (handleBack st))))) \<longlonglongrightarrow> 0
   \<and> camera_position (controller (SolarSystem_frames L (x # xs) (handleBack st)))
       = smoothedCamera (controller (SolarSystem_frames L (x # xs) (handleBack st)))
   \<and> smoothedCamera (controller (SolarSystem_frames L ins (SolarSystem_init w))) = Vector3 0 40 120
   \<and> smoothedPlanet (controller (SolarSystem_frames L ins (SolarSystem_init w))) = Vector3 0 0 0"
proof -
  have nf: "\<not> store_isFocusing (handleBack st)" by (simp add: handleBack_def)
  have c: "controller (handleBack st) = controller st" by (simp add: handleBack_def)
  have closed: "smoothedCamera (controller (SolarSystem_frames L xs (handleBack st)))
       = lerp (smoothedCamera (controller st)) (Vector3 0 40 120) (1 - 0.95 ^ length xs)
   \<and> smoothedPlanet (controller (SolarSystem_frames L xs (handleBack st)))
       = lerp (smoothedPlanet (controller st)) (Vector3 0 0 0) (1 - 0.95 ^ length xs)" for xs
    using frames_not_focusing [OF nf, of L xs] by (simp only: c)
  have len: "length (map f [0..<n]) = n" for n by simp
  have lims:
    "(\<lambda>n. vx (smoothedCamera (controller (SolarSystem_frames L (map f [0..<n]) (handleBack st))))) \<longlonglongrightarrow> vx (Vector3 0 40 120)"
    "(\<lambda>n. vy (smoothedCamera (controller (SolarSystem_frames L (map f [0..<n]) (handleBack st))))) \<longlonglongrightarrow> vy (Vector3 0 40 120)"
    "(\<lambda>n. vz (smoothedCamera (controller (SolarSystem_frames L (map f [0..<n]) (handleBack st))))) \<longlonglongrightarrow> vz (Vector3 0 40 120)"
    "(\<lambda>n. vx (smoothedPlanet (controller (SolarSystem_frames L (map f [0..<n]) (handleBack st))))) \<longlonglongrightarrow> vx (Vector3 0 0 0)"
    "(\<lambda>n. vy (smoothedPlanet (controller (SolarSystem_frames L (map f [0..<n]) (handleBack st))))) \<longlonglongrightarrow> vy (Vector3 0 0 0)"
    "(\<lambda>n. vz (smoothedPlanet (controller (SolarSystem_frames L (map f [0..<n]) (handleBack st))))) \<longlonglongrightarrow> vz (Vector3 0 0 0)"
    by (simp_all only: closed len lerp_limit)
  from closed [of ins] lims init_fixed [of L ins w] frames_place_camera [of L x xs "handleBack st"]
  show ?thesis
    by (simp only: Vector3.sel)
qed

section \<open>An unresolved target\<close>

lemma getter_null: "target inp = None \<Longrightarrow> useFrame inp s = reset_view s"
  by (simp add: useFrame_def)

lemma getter_holds:
  "truthy (Some n) \<Longrightarrow> planetRefs n = None \<or> planetRefs n = Some None \<Longrightarrow>
     getPlanetPosition L planetRefs (Some n) smt = (Some smt, smt)"
  by (auto simp: getPlanetPosition_def)

lemma getter_none_iff:
  "(fst (getPlanetPosition L planetRefs sel smt) = None) = (\<not> truthy sel)"
  by (auto simp: getPlanetPosition_def truthy_def Let_def split: option.splits)

lemma frame_ref_missing:
  assumes "truthy (Some n)" "planetRefs n = None \<or> planetRefs n = Some None"
    "selected st = Some n" "store_isFocusing st"
  shows "smoothedTarget (SolarSystem_frame L planetRefs t dt dir st) = smoothedTarget st"
    "controller (SolarSystem_frame L planetRefs t dt dir st)
       = follow (smoothedTarget st)
           \<lparr> isFocusing = True, target = Some (smoothedTarget st), time = t, delta = dt,
             worldDirection = dir \<rparr> (controller st)"
  using assms getter_holds [of n planetRefs L "smoothedTarget st"]
  by (simp_all add: SolarSystem_frame_def useFrame_def)

text \<open>
  C4, as the code has it. The frame callback has no failing path: every frame yields
  the next state. When the getter returns \<open>null\<close> (which it does exactly when no name,
  or the empty name, is selected) the controller does not hold its smoothed values,
  even with \<open>isFocusing\<close> set: it takes the default branch, which blends the smoothed
  camera by 0.05 toward (0, 40, 120) and the smoothed planet by 0.05 toward the
  origin. When a name is selected and its scene-graph reference is missing, the getter
  returns its own \<open>smoothedTarget\<close> unchanged, and the controller goes on following
  that held value with its usual smoothing.
\<close>

theorem C4_unresolved_target:
  "(target inp = None \<longrightarrow> useFrame inp s = reset_view s)
   \<and> smoothedCamera (reset_view s) = lerp (smoothedCamera s) (Vector3 0 40 120) 0.05
   \<and> smoothedPlanet (reset_view s) = lerp (smoothedPlanet s) (Vector3 0 0 0) 0.05
   \<and> (fst (getPlanetPosition L planetRefs sel smt) = None) = (\<not> truthy sel)
   \<and> (truthy (Some n) \<and> (planetRefs n = None \<or> planetRefs n = Some None) \<longrightarrow>
        getPlanetPosition L planetRefs (Some n) smt = (Some smt, smt))
   \<and> (truthy (Some n) \<and> (planetRefs n = None \<or> planetRefs n = Some None)
        \<and> selected st = Some n \<and> store_isFocusing st \<longrightarrow>
        smoothedTarget (SolarSystem_frame L planetRefs t dt dir st) = smoothedTarget st
      \<and> controller (SolarSystem_frame L planetRefs t dt dir st)
          = follow (smoothedTarget st)
              \<lparr> isFocusing = True, target = Some (smoothedTarget st), time = t, delta = dt,
                worldDirection = dir \<rparr> (controller st))"
  using getter_null [of inp s] reset_view_camera [of s] reset_view_planet [of s]
    getter_none_iff [of L planetRefs sel smt] getter_holds [of n planetRefs L smt]
    frame_ref_missing [of n planetRefs st L t dt dir]
  by blast

theorem C4_unresolved_target_witness:
  "useFrame \<lparr> isFocusing = True, target = None, time = 0, delta = 1/60,
               worldDirection = Vector3 0 0 (-1) \<rparr> (initial_state (Vector3 0 40 120))
     = reset_view (initial_state (Vector3 0 40 120))
   \<and> getPlanetPosition (\<lambda>g v. v) Map.empty (Some ''Earth'') (Vector3 1 2 3)
     = (Some (Vector3 1 2 3), Vector3 1 2 3)
   \<and> smoothedTarget
        (SolarSystem_frame (\<lambda>g v. v) Map.empty 0 (1/60) (Vector3 0 0 (-1))
           (handleClick ''Earth'' (SolarSystem_init 1280)))
     = Vector3 0 0 0"
  using C4_unresolved_target
    [where inp = "\<lparr> isFocusing = True, target = None, time = 0, delta = 1/60,
                     worldDirection = Vector3 0 0 (-1) \<rparr>"
       and s = "initial_state (Vector3 0 40 120)"
       and n = "''Earth''" and planetRefs = Map.empty and smt = "Vector3 1 2 3"
       and L = "\<lambda>g v. v" and st = "handleClick ''Earth'' (SolarSystem_init 1280)"
       and t = 0 and dt = "1/60" and dir = "Vector3 0 0 (-1)"]
  by (simp add: truthy_def handleClick_def SolarSystem_init_def)

text \<open>
  Where the claim as written fails: with \<open>isFocusing\<close> set and the getter returning
  \<open>null\<close>, one frame moves the smoothed camera from (10, 3, 10) to (9.5, 4.85, 15.5)
  and the smoothed planet from (10, 0, 0) to (9.5, 0, 0).
\<close>

theorem C4_counterexample:
  "smoothedCamera
     (useFrame \<lparr> isFocusing = True, target = None, time = 0, delta = 1/60,
                 worldDirection = Vector3 0 0 (-1) \<rparr>
        \<lparr> smoothedPlanet = Vector3 10 0 0, smoothedCamera = Vector3 10 3 10,
          lastDir = Vector3 0 0 (-1), isActive = True,
          camera_position = Vector3 10 3 10, camera_lookAt = Vector3 10 0 0 \<rparr>)
     = Vector3 9.5 4.85 15.5
   \<and> smoothedPlanet
     (useFrame \<lparr> isFocusing = True, target = None, time = 0, delta = 1/60,
                 worldDirection = Vector3 0 0 (-1) \<rparr>
        \<lparr> smoothedPlanet = Vector3 10 0 0, smoothedCamera = Vector3 10 3 10,
          lastDir = Vector3 0 0 (-1), isActive = True,
          camera_position = Vector3 10 3 10, camera_lookAt = Vector3 10 0 0 \<rparr>)
     = Vector3 9.5 0 0"
  by (simp add: useFrame_def reset_view_def lerp_def Let_def)

section \<open>The free orbit\<close>

lemma orbit_point_near:
  assumes "\<bar>fst mouse\<bar> \<le> 1" "\<bar>snd mouse\<bar> \<le> 1"
  shows "\<bar>vx (orbit_point a mouse ph) - 60 * cos a\<bar> \<le> 5"
    "\<bar>vz (orbit_point a mouse ph) - 60 * sin a\<bar> \<le> 5"
    "15 \<le> vy (orbit_point a mouse ph)" "vy (orbit_point a mouse ph) \<le> 25"
proof -
  show "\<bar>vx (orbit_point a mouse ph) - 60 * cos a\<bar> \<le> 5"
    using assms(1) by (simp add: orbit_point_def Let_def abs_mult)
  show "\<bar>vz (orbit_point a mouse ph) - 60 * sin a\<bar> \<le> 5"
    using assms(2) by (simp add: orbit_point_def Let_def abs_mult)
  have y: "vy (orbit_point a mouse ph) = 20 + sin ph * 5" by (simp add: orbit_point_def Let_def)
  have "- 1 \<le> sin ph" by (rule sin_ge_minus_one)
  then show "15 \<le> vy (orbit_point a mouse ph)" unfolding y by linarith
  have "sin ph \<le> 1" by (rule sin_le_one)
  then show "vy (orbit_point a mouse ph) \<le> 25" unfolding y by linarith
qed

lemma orbit_point_height:
  "vy (orbit_point a mouse ph) = 20 + sin ph * 5"
  "15 \<le> vy (orbit_point a mouse ph)" "vy (orbit_point a mouse ph) \<le> 25"
  using orbit_point_near(3,4) [of "(0, 0)" a ph]
  by (simp_all add: orbit_point_def Let_def)

lemma free_orbit_step:
  "angle (free_orbit mouse ph s) = angle s + 0.001"
  "cam_position (free_orbit mouse ph s)
     = lerp (cam_position s) (orbit_point (angle s + 0.001) mouse ph) 0.05"
  "cam_lookAt (free_orbit mouse ph s) = Vector3 0 0 0"
  by (simp_all add: free_orbit_def Let_def)

lemma byPosition_free:
  "targetPlanet = None \<or> getter = None \<Longrightarrow>
     useFrame_byPosition targetPlanet getter mouse elapsed s = free_orbit mouse (elapsed * 0.2) s"
  by (auto simp: useFrame_byPosition_def split: option.splits)

lemma byName_free:
  "\<not> truthy nm \<Longrightarrow> useFrame_byName nm planetRefs mouse now s = free_orbit mouse (now * 0.002) s"
  by (simp add: useFrame_byName_def)

lemma render_restarts_angle: "angle (render_controller s) = 0"
  by (simp add: render_controller_def)

text \<open>
  C8, as the code has it. In free mode (no target, or no getter; no truthy name) a
  frame of either orbiting controller advances the angle by 0.001, looks at the origin
  and moves the camera by the factor 0.05 toward \<open>orbit_point\<close>: the point of the
  radius-60 circle at the advanced angle, shifted by five times the pointer
  coordinates, at a height of 20 plus five times the sine of the clock phase. With
  pointer coordinates in [-1, 1] that point is within 5 units of the circle on each
  horizontal axis; its height is not fixed but stays within 15 and 25.
\<close>

theorem C8_free_orbit:
  "(targetPlanet = None \<or> getter = None \<longrightarrow>
      useFrame_byPosition targetPlanet getter mouse elapsed s = free_orbit mouse (elapsed * 0.2) s)
   \<and> (\<not> truthy nm \<longrightarrow>
      useFrame_byName nm planetRefs mouse now s = free_orbit mouse (now * 0.002) s)
   \<and> angle (free_orbit mouse ph s) = angle s + 0.001
   \<and> cam_position (free_orbit mouse ph s)
       = lerp (cam_position s) (orbit_point (angle s + 0.001) mouse ph) 0.05
   \<and> cam_lookAt (free_orbit mouse ph s) = Vector3 0 0 0
   \<and> vy (orbit_point a mouse ph) = 20 + sin ph * 5
   \<and> 15 \<le> vy (orbit_point a mouse ph) \<and> vy (orbit_point a mouse ph) \<le> 25
   \<and> (\<bar>fst mouse\<bar> \<le> 1 \<and> \<bar>snd mouse\<bar> \<le> 1 \<longrightarrow>
        \<bar>vx (orbit_point a mouse ph) - 60 * cos a\<bar> \<le> 5
      \<and> \<bar>vz (orbit_point a mouse ph) - 60 * sin a\<bar> \<le> 5)"
  using byPosition_free [of targetPlanet getter mouse elapsed s]
    byName_free [of nm planetRefs mouse now s]
    free_orbit_step [of mouse ph s] orbit_point_height [of a mouse ph]
    orbit_point_near [of mouse a ph]
  by blast

theorem C8_free_orbit_witness:
  "useFrame_byPosition None None (1, - 1) 0
       \<lparr> angle = 0, cam_position = Vector3 0 30 70, cam_lookAt = Vector3 0 0 0 \<rparr>
     = free_orbit (1, - 1) (0 * 0.2)
         \<lparr> angle = 0, cam_position = Vector3 0 30 70, cam_lookAt = Vector3 0 0 0 \<rparr>
   \<and> useFrame_byName None Map.empty (1, - 1) 0
       \<lparr> angle = 0, cam_position = Vector3 0 30 70, cam_lookAt = Vector3 0 0 0 \<rparr>
     = free_orbit (1, - 1) (0 * 0.002)
         \<lparr> angle = 0, cam_position = Vector3 0 30 70, cam_lookAt = Vector3 0 0 0 \<rparr>
   \<and> \<bar>vx (orbit_point 0 (1, - 1) 0) - 60 * cos 0\<bar> \<le> 5
   \<and> \<bar>vz (orbit_point 0 (1, - 1) 0) - 60 * sin 0\<bar> \<le> 5"
  using C8_free_orbit
    [where targetPlanet = None and getter = None and mouse = "(1, - 1)" and elapsed = 0
       and s = "\<lparr> angle = 0, cam_position = Vector3 0 30 70, cam_lookAt = Vector3 0 0 0 \<rparr>"
       and nm = None and planetRefs = Map.empty and now = 0 and a = 0 and ph = 0]
  by (simp add: truthy_def)

text \<open>
  Where the claim as written fails: at the elapsed time \<open>5 pi / 2\<close> the height steered
  to is 25, and a camera at height 20 is moved to height 20.25 by that frame.
\<close>

theorem C8_counterexample:
  "vy (orbit_point 0.001 (0, 0) (5 * pi / 2 * 0.2)) = 25
   \<and> vy (cam_position (useFrame_byPosition None None (0, 0) (5 * pi / 2)
         \<lparr> angle = 0, cam_position = Vector3 60 20 0, cam_lookAt = Vector3 0 0 0 \<rparr>)) = 20.25"
  by (simp add: useFrame_byPosition_def free_orbit_def orbit_point_def Let_def)

section \<open>The info panel\<close>

lemma truthy_iff: "truthy sel = (sel \<noteq> None \<and> sel \<noteq> Some [])"
  by (simp add: truthy_def split: option.splits)

lemma panel_absent: "(SolarSystem_panel inherited st = Inr None) = (\<not> truthy (selected st))"
  by (simp add: SolarSystem_panel_def truthy_def split: option.splits sum.splits)

lemma panel_content:
  "truthy (Some n) \<Longrightarrow> selected st = Some n \<Longrightarrow>
     SolarSystem_panel inherited st =
       (case map_of planetInfo n of
          Some info \<Rightarrow> Inr (Some \<lparr> panel_heading = n, panel_info = Some info \<rparr>)
        | None \<Rightarrow>
            (case inherited n of
               JSObject \<Rightarrow> Inl InvalidChild
             | JSString v \<Rightarrow> Inr (Some \<lparr> panel_heading = n, panel_info = Some v \<rparr>)
             | JSUndefined \<Rightarrow> Inr (Some \<lparr> panel_heading = n, panel_info = None \<rparr>)
             | JSFunction \<Rightarrow> Inr (Some \<lparr> panel_heading = n, panel_info = None \<rparr>)))"
  by (simp add: SolarSystem_panel_def InfoPanel_def get_property_def render_child_def
      split: option.splits js_value.splits)

lemma overlay_absent: "(InfoOverlay inherited nm = Inr None) = (\<not> truthy nm)"
  by (simp add: InfoOverlay_def truthy_def split: option.splits sum.splits)

lemma overlay_content:
  "truthy (Some n) \<Longrightarrow>
     InfoOverlay inherited (Some n) =
       (case map_of planetInfo4 n of
          Some info \<Rightarrow> Inr (Some (Some info))
        | None \<Rightarrow>
            (case inherited n of
               JSObject \<Rightarrow> Inl InvalidChild
             | JSString v \<Rightarrow> Inr (Some (Some v))
             | JSUndefined \<Rightarrow> Inr (Some None)
             | JSFunction \<Rightarrow> Inr (Some None)))"
  by (simp add: InfoOverlay_def get_property_def render_child_def
      split: option.splits js_value.splits)

lemma planet_names_keys:
  "p \<in> set (planets w) \<Longrightarrow> planet_name p \<noteq> [] \<and> map_of planetInfo (planet_name p) \<noteq> None"
  by (auto simp: planets_def Let_def planetInfo_def)

lemma planets4_names_keys:
  "p \<in> set planets4 \<Longrightarrow> name p \<noteq> [] \<and> map_of planetInfo4 (name p) \<noteq> None"
  by (auto simp: planets4_def planetInfo4_def)

lemma ui_selected:
  "\<forall>e \<in> set es. offered w e \<Longrightarrow>
    (case selected st of None \<Rightarrow> True | Some n \<Rightarrow> n \<noteq> [] \<and> map_of planetInfo n \<noteq> None) \<Longrightarrow>
    (case selected (ui_run es st) of None \<Rightarrow> True
       | Some n \<Rightarrow> n \<noteq> [] \<and> map_of planetInfo n \<noteq> None)"
proof (induction es arbitrary: st)
  case Nil
  then show ?case by simp
next
  case (Cons e es)
  have "case selected (ui_step e st) of None \<Rightarrow> True
          | Some n \<Rightarrow> n \<noteq> [] \<and> map_of planetInfo n \<noteq> None"
  proof (cases e)
    case (ClickPlanet p)
    with Cons.prems(1) have "p \<in> set (planets w)" by simp
    then show ?thesis using ClickPlanet planet_names_keys [of p w] by (simp add: handleClick_def)
  next
    case ClickBack
    then show ?thesis by (simp add: handleBack_def)
  qed
  with Cons show ?case by simp
qed

lemma ui_panel:
  assumes "\<forall>e \<in> set es. offered w e"
  shows "SolarSystem_panel inherited (ui_run es (SolarSystem_init w)) =
          (case selected (ui_run es (SolarSystem_init w)) of
             None \<Rightarrow> Inr None
           | Some n \<Rightarrow> Inr (Some \<lparr> panel_heading = n, panel_info = map_of planetInfo n \<rparr>))"
    and "selected (ui_run es (SolarSystem_init w)) \<noteq> None \<longrightarrow>
           (\<exists>n info. selected (ui_run es (SolarSystem_init w)) = Some n
                    \<and> map_of planetInfo n = Some info)"
proof -
  let ?st = "ui_run es (SolarSystem_init w)"
  have "case selected (SolarSystem_init w) of None \<Rightarrow> True
          | Some n \<Rightarrow> n \<noteq> [] \<and> map_of planetInfo n \<noteq> None"
    by (simp add: SolarSystem_init_def)
  from ui_selected [OF assms this]
  have inv: "case selected ?st of None \<Rightarrow> True | Some n \<Rightarrow> n \<noteq> [] \<and> map_of planetInfo n \<noteq> None" .
  show "SolarSystem_panel inherited ?st =
          (case selected ?st of None \<Rightarrow> Inr None
           | Some n \<Rightarrow> Inr (Some \<lparr> panel_heading = n, panel_info = map_of planetInfo n \<rparr>))"
  proof (cases "selected ?st")
    case None
    then show ?thesis by (simp add: SolarSystem_panel_def truthy_def)
  next
    case (Some n)
    with inv have n: "n \<noteq> []" "map_of planetInfo n \<noteq> None" by simp_all
    then obtain info where t: "map_of planetInfo n = Some info" by auto
    have "truthy (Some n)" using n(1) by (simp add: truthy_def)
    from panel_content [OF this Some, of inherited] show ?thesis by (simp add: Some t)
  qed
  show "selected ?st \<noteq> None \<longrightarrow> (\<exists>n info. selected ?st = Some n \<and> map_of planetInfo n = Some info)"
    using inv by (auto split: option.splits)
qed

lemma OverlayInfo_eq:
  "OverlayInfo None = None"
  "OverlayInfo (Some tp) =
     (case find (\<lambda>p. \<bar>op_distance p - vx tp\<bar> < 1) overlay_planets of
        Some planet \<Rightarrow> Some (op_info planet)
      | None \<Rightarrow> None)"
  by (auto simp: OverlayInfo_def OverlayInfo_render_def OverlayInfo_effect_def Let_def
      overlay_planets_def split: option.splits)

text \<open>
  C9, as the code has it. \<open>SolarSystem\<close> and \<open>InfoOverlay\<close> render nothing exactly
  when the selected name is falsy, that is \<open>null\<close> or the empty string. For a truthy
  name the panel's content is looked up by that name: a name that is a key of
  \<open>planetInfo\<close> shows its text; any other name is looked up through the prototype
  chain, and the render throws when that yields an object (as for \<open>__proto__\<close>) and
  shows an empty panel when it yields \<open>undefined\<close> or a function. Whatever the user
  clicks in the eight-planet scene, the selection is \<open>null\<close> or a planet's name, which
  is a key, so there the panel is absent exactly when the selection is \<open>null\<close> and
  otherwise shows the planet's text; the names of the four-planet scene are keys of its
  table as well. \<open>OverlayInfo\<close> is keyed by position instead: it shows the text of the
  first planet whose distance is within 1 of the stored position's x coordinate, and
  nothing when there is none or when nothing is stored.
\<close>

theorem C9_info_panel:
  "(SolarSystem_panel inherited st = Inr None) = (\<not> truthy (selected st))
   \<and> (truthy (Some n) \<and> selected st = Some n \<longrightarrow>
        SolarSystem_panel inherited st =
          (case map_of planetInfo n of
             Some info \<Rightarrow> Inr (Some \<lparr> panel_heading = n, panel_info = Some info \<rparr>)
           | None \<Rightarrow>
               (case inherited n of
                  JSObject \<Rightarrow> Inl InvalidChild
                | JSString v \<Rightarrow> Inr (Some \<lparr> panel_heading = n, panel_info = Some v \<rparr>)
                | JSUndefined \<Rightarrow> Inr (Some \<lparr> panel_heading = n, panel_info = None \<rparr>)
                | JSFunction \<Rightarrow> Inr (Some \<lparr> panel_heading = n, panel_info = None \<rparr>))))
   \<and> (InfoOverlay inherited nm = Inr None) = (\<not> truthy nm)
   \<and> (truthy (Some n) \<longrightarrow>
        InfoOverlay inherited (Some n) =
          (case map_of planetInfo4 n of
             Some info \<Rightarrow> Inr (Some (Some info))
           | None \<Rightarrow>
               (case inherited n of
                  JSObject \<Rightarrow> Inl InvalidChild
                | JSString v \<Rightarrow> Inr (Some (Some v))
                | JSUndefined \<Rightarrow> Inr (Some None)
                | JSFunction \<Rightarrow> Inr (Some None))))
   \<and> truthy sel = (sel \<noteq> None \<and> sel \<noteq> Some [])
   \<and> ((\<forall>e \<in> set es. offered w e) \<longrightarrow>
        SolarSystem_panel inherited (ui_run es (SolarSystem_init w)) =
          (case selected (ui_run es (SolarSystem_init w)) of
             None \<Rightarrow> Inr None
           | Some n \<Rightarrow> Inr (Some \<lparr> panel_heading = n, panel_info = map_of planetInfo n \<rparr>))
      \<and> (selected (ui_run es (SolarSystem_init w)) \<noteq> None \<longrightarrow>
           (\<exists>n info. selected (ui_run es (SolarSystem_init w)) = Some n
                     \<and> map_of planetInfo n = Some info)))
   \<and> (p \<in> set planets4 \<longrightarrow>
        name p \<noteq> [] \<and> map_of planetInfo4 (name p) \<noteq> None
      \<and> InfoOverlay inherited (Some (name p)) = Inr (Some (map_of planetInfo4 (name p))))
   \<and> OverlayInfo None = None
   \<and> OverlayInfo (Some tp) =
       (case find (\<lambda>p. \<bar>op_distance p - vx tp\<bar> < 1) overlay_planets of
          Some planet \<Rightarrow> Some (op_info planet)
        | None \<Rightarrow> None)"
proof -
  have four: "name p \<noteq> [] \<and> map_of planetInfo4 (name p) \<noteq> None
      \<and> InfoOverlay inherited (Some (name p)) = Inr (Some (map_of planetInfo4 (name p)))"
    if "p \<in> set planets4"
  proof -
    from planets4_names_keys [OF that]
    have k: "name p \<noteq> []" "map_of planetInfo4 (name p) \<noteq> None" by simp_all
    then obtain info where i: "map_of planetInfo4 (name p) = Some info" by auto
    have "truthy (Some (name p))" using k(1) by (simp add: truthy_def)
    from overlay_content [OF this, of inherited] show ?thesis using k by (simp add: i)
  qed
  from panel_absent [of inherited st] panel_content [of n st inherited]
    overlay_absent [of inherited nm] overlay_content [of n inherited]
    truthy_iff [of sel] ui_panel(1) [of es w inherited] ui_panel(2) [of es w] four
    OverlayInfo_eq(1) OverlayInfo_eq(2) [of tp]
  show ?thesis by blast
qed

theorem C9_info_panel_witness:
  "SolarSystem_panel (\<lambda>k. if k = ''__proto__'' then JSObject else JSUndefined)
      (handleClick ''Earth'' (SolarSystem_init 1280))
     = Inr (Some \<lparr> panel_heading = ''Earth'',
                    panel_info = Some ''Our home world with oceans and life.'' \<rparr>)
   \<and> InfoOverlay (\<lambda>k. if k = ''__proto__'' then JSObject else JSUndefined) (Some ''Earth'')
     = Inr (Some (Some ''Our home planet with abundant life''))
   \<and> InfoOverlay (\<lambda>k. if k = ''__proto__'' then JSObject else JSUndefined) (Some ''Mars'')
     \<noteq> Inr None
   \<and> SolarSystem_panel (\<lambda>k. if k = ''__proto__'' then JSObject else JSUndefined)
        (ui_run [ClickPlanet \<lparr> planet_name = ''Earth'', planet_size = 1.3, planet_distance = 18,
                    planet_rotationSpeed = 0.02, planet_orbitSpeed = 0.6, planet_ring = None \<rparr>,
                 ClickBack] (SolarSystem_init 1280)) = Inr None
   \<and> InfoOverlay (\<lambda>k. if k = ''__proto__'' then JSObject else JSUndefined)
        (Some (name \<lparr> name = ''Mars'', size_p = 1.2, distance = 20, rotationSpeed = 0.018,
                       orbitSpeed = None \<rparr>))
     = Inr (Some (Some ''The Red Planet, potential for future colonies''))"
  using C9_info_panel
    [where inherited = "\<lambda>k. if k = ''__proto__'' then JSObject else JSUndefined"
       and st = "handleClick ''Earth'' (SolarSystem_init 1280)" and n = "''Earth''"
       and nm = "Some ''Mars''"
       and es = "[ClickPlanet \<lparr> planet_name = ''Earth'', planet_size = 1.3, planet_distance = 18,
                    planet_rotationSpeed = 0.02, planet_orbitSpeed = 0.6, planet_ring = None \<rparr>,
                 ClickBack]" and w = 1280
       and p = "\<lparr> name = ''Mars'', size_p = 1.2, distance = 20, rotationSpeed = 0.018,
                   orbitSpeed = None \<rparr>"]
  by (simp add: truthy_def handleClick_def handleBack_def SolarSystem_init_def planetInfo_def
      planetInfo4_def planets_def planets4_def scaleFactor_def Let_def)

text \<open>
  Where the claim as written fails: with the position (-16, 0, 0) stored (Earth's
  orbit, far side) \<open>OverlayInfo\<close> renders nothing; \<open>InfoOverlay\<close> renders nothing for
  the empty name; and for the name \<open>__proto__\<close>, whose lookup yields an object, the
  render of \<open>InfoOverlay\<close> and of the panel of \<open>SolarSystem\<close> throws.
\<close>

theorem C9_counterexample:
  "OverlayInfo (Some (Vector3 (- 16) 0 0)) = None
   \<and> InfoOverlay (\<lambda>k. if k = ''__proto__'' then JSObject else JSUndefined) (Some []) = Inr None
   \<and> InfoOverlay (\<lambda>k. if k = ''__proto__'' then JSObject else JSUndefined) (Some ''__proto__'')
     = Inl InvalidChild
   \<and> SolarSystem_panel (\<lambda>k. if k = ''__proto__'' then JSObject else JSUndefined)
        (handleClick ''__proto__'' (SolarSystem_init 1280))
     = Inl InvalidChild"
  by (simp add: OverlayInfo_def OverlayInfo_render_def OverlayInfo_effect_def overlay_planets_def
      InfoOverlay_def SolarSystem_panel_def InfoPanel_def get_property_def render_child_def
      planetInfo_def planetInfo4_def truthy_def handleClick_def SolarSystem_init_def)

end
